theory Spec2Isabelle
  imports Main
begin

section \<open>function\_ref: a non-owning reference to a callable\<close>

text \<open>
  The header \<^verbatim>\<open>function_ref.hpp\<close> defines, for a signature \<^verbatim>\<open>R(Args...)\<close>, a class with
  two private members: \<^verbatim>\<open>void *obj_\<close>, the address of the callable that was bound, and
  \<^verbatim>\<open>R (*callback_)(void *, Args...)\<close>, a pointer to a function generated for the
  callable's type \<^verbatim>\<open>F\<close>. The signature is fixed by two type variables: \<open>'a\<close> is the
  argument tuple \<^verbatim>\<open>Args...\<close> and \<open>'r\<close> the result \<^verbatim>\<open>R\<close>. A call that has effects is
  covered by choosing for \<open>'r\<close> a type that records them.
\<close>

subsection \<open>Memory\<close>

text \<open>
  Callables live at addresses of their own; the reference never copies one. A pointer is
  an \<open>addr option\<close>, with \<open>None\<close> for \<^verbatim>\<open>nullptr\<close>. The objects of class
  \<^verbatim>\<open>function_ref\<close> live at locations of a second store, so that the two operands of an
  assignment or of a swap may be the same object.
\<close>

type_synonym addr = nat
type_synonym loc = nat

text \<open>
  The type of a callable, without reference and \<^verbatim>\<open>const\<close>: a function, a class with a
  call operator (a closure or a function object, one number for each class), a pointer to
  function, or a pointer to member.
\<close>

datatype object_type = FunctionT | ClassT nat | FunctionPointerT | MemberPointerT

text \<open>
  The template parameter \<^verbatim>\<open>F\<close> as it is deduced for \<^verbatim>\<open>F &&f\<close>: \<^verbatim>\<open>G &\<close> for an lvalue
  argument and \<^verbatim>\<open>G\<close> for an rvalue, where \<^verbatim>\<open>G\<close> is the type above, possibly \<^verbatim>\<open>const\<close>. A
  function is always deduced as an lvalue.
\<close>

record deduced =
  referred :: object_type
  is_const :: bool
  is_lvalue :: bool

text \<open>
  Of the result type \<^verbatim>\<open>R\<close> of the signature the class depends on one thing beyond the
  values it has: whether it is a reference type.
\<close>

datatype result_type = ObjectOrVoid | Reference

text \<open>
  A callable in memory. A class object carries what its call operator computes in the
  object's present state; a pointer may be null.
\<close>

datatype ('a, 'r) callable =
    Function "'a \<Rightarrow> 'r"
  | FunctionObject nat "'a \<Rightarrow> 'r"
  | FunctionPointer "('a \<Rightarrow> 'r) option"
  | MemberPointer "('a \<Rightarrow> 'r) option"

fun type_of :: "('a, 'r) callable \<Rightarrow> object_type" where
  "type_of (Function g) = FunctionT"
| "type_of (FunctionObject c g) = ClassT c"
| "type_of (FunctionPointer p) = FunctionPointerT"
| "type_of (MemberPointer m) = MemberPointerT"

type_synonym ('a, 'r) heap = "addr \<Rightarrow> ('a, 'r) callable option"

text \<open>What C++ leaves undefined is a value of the model.\<close>

datatype undefined_behaviour =
    NullCallback
  | NullObject
  | DanglingObject
  | WrongObjectType
  | NullFunctionPointer
  | NullMemberPointer
  | MissingReturn

text \<open>So is what makes the instantiation of a member template ill-formed.\<close>

datatype ill_formed =
    CastsAwayConst
  | NoConversionToVoidPointer
  | PointerToReference
  | LambdaReturnsValue

subsection \<open>detail::invoke\<close>

text \<open>
  \<^verbatim>\<open>is_member_pointer<decay_t<Fn>>\<close> selects one of the two overloads: the first calls
  \<^verbatim>\<open>std::mem_fn(f)(args...)\<close>, the second \<^verbatim>\<open>f(args...)\<close>.
\<close>

fun is_member_pointer :: "object_type \<Rightarrow> bool" where
  "is_member_pointer MemberPointerT = True"
| "is_member_pointer FunctionT = False"
| "is_member_pointer (ClassT c) = False"
| "is_member_pointer FunctionPointerT = False"

fun mem_fn_call :: "('a, 'r) callable \<Rightarrow> 'a \<Rightarrow> undefined_behaviour + 'r" where
  "mem_fn_call (MemberPointer None) a = Inl NullMemberPointer"
| "mem_fn_call (MemberPointer (Some g)) a = Inr (g a)"
| "mem_fn_call (Function g) a = Inl WrongObjectType"
| "mem_fn_call (FunctionObject c g) a = Inl WrongObjectType"
| "mem_fn_call (FunctionPointer p) a = Inl WrongObjectType"

fun direct_call :: "('a, 'r) callable \<Rightarrow> 'a \<Rightarrow> undefined_behaviour + 'r" where
  "direct_call (Function g) a = Inr (g a)"
| "direct_call (FunctionObject c g) a = Inr (g a)"
| "direct_call (FunctionPointer None) a = Inl NullFunctionPointer"
| "direct_call (FunctionPointer (Some g)) a = Inr (g a)"
| "direct_call (MemberPointer m) a = Inl WrongObjectType"

definition invoke :: "('a, 'r) callable \<Rightarrow> 'a \<Rightarrow> undefined_behaviour + 'r" where
  "invoke f a =
     (if is_member_pointer (type_of f) then mem_fn_call f a else direct_call f a)"

subsection \<open>The class\<close>

text \<open>
  The two lambdas, in the converting constructor and in the assignment from a callable,
  are two functions for each \<^verbatim>\<open>F\<close>; \<^verbatim>\<open>callback_\<close> holds the address of one of them, or
  null. The members are \<^verbatim>\<open>obj_\<close> and \<^verbatim>\<open>callback_\<close> in the source.
\<close>

datatype thunk = ConstructorThunk deduced | AssignmentThunk deduced

record function_ref =
  obj :: "addr option"
  callback :: "thunk option"

type_synonym refs = "loc \<Rightarrow> function_ref"

text \<open>
  \<^verbatim>\<open>*reinterpret_cast<G *>(obj)\<close>: the object at the address, read as a \<^verbatim>\<open>G\<close>. It is
  defined only when an object of that type is alive there.
\<close>

definition deref_as :: "object_type \<Rightarrow> ('a, 'r) heap \<Rightarrow> addr option \<Rightarrow> undefined_behaviour + ('a, 'r) callable" where
  "deref_as G h p =
     (case p of
        None \<Rightarrow> Inl NullObject
      | Some q \<Rightarrow>
          (case h q of
             None \<Rightarrow> Inl DanglingObject
           | Some f \<Rightarrow> if type_of f = G then Inr f else Inl WrongObjectType))"

text \<open>
  The bodies of the two lambdas. The constructor's casts to
  \<^verbatim>\<open>std::add_pointer<F>::type\<close>, which is \<^verbatim>\<open>G *\<close> for \<^verbatim>\<open>G &\<close> as for \<^verbatim>\<open>G\<close>; the
  assignment's casts to \<^verbatim>\<open>F *\<close>, which is a type only when \<^verbatim>\<open>F\<close> is not a reference, and
  then \<^verbatim>\<open>G *\<close> as well. Both then call \<^verbatim>\<open>detail::invoke\<close> on the object, forwarded as
  \<^verbatim>\<open>F\<close>; a callable carries the one behaviour it has when called as it was bound.
\<close>

fun run_thunk :: "thunk \<Rightarrow> ('a, 'r) heap \<Rightarrow> addr option \<Rightarrow> 'a \<Rightarrow> undefined_behaviour + 'r" where
  "run_thunk (ConstructorThunk F) h p a =
     (case deref_as (referred F) h p of Inl e \<Rightarrow> Inl e | Inr f \<Rightarrow> invoke f a)"
| "run_thunk (AssignmentThunk F) h p a =
     (case deref_as (referred F) h p of Inl e \<Rightarrow> Inl e | Inr f \<Rightarrow> invoke f a)"

text \<open>\<^verbatim>\<open>function_ref()\<close>: both members take their default initialisers.\<close>

definition function_ref_default :: function_ref where
  "function_ref_default = \<lparr>obj = None, callback = None\<rparr>"

text \<open>\<^verbatim>\<open>function_ref(std::nullptr_t)\<close> delegates to the default constructor.\<close>

definition function_ref_nullptr :: function_ref where
  "function_ref_nullptr = function_ref_default"

text \<open>\<^verbatim>\<open>function_ref(const function_ref &) = default\<close>.\<close>

definition function_ref_copy :: "function_ref \<Rightarrow> function_ref" where
  "function_ref_copy rhs = \<lparr>obj = obj rhs, callback = callback rhs\<rparr>"

text \<open>
  \<^verbatim>\<open>function_ref(F &&f)\<close>, what it executes: \<^verbatim>\<open>obj_\<close> is initialised with the address of
  \<^verbatim>\<open>f\<close>, which is the address of an object and so is not null; the body then stores the
  lambda. The callable itself is not read.
\<close>

definition constructed_from :: "deduced \<Rightarrow> addr \<Rightarrow> function_ref" where
  "constructed_from F p =
     (let r = \<lparr>obj = Some p, callback = None\<rparr>
      in r\<lparr>callback := Some (ConstructorThunk F)\<rparr>)"

text \<open>
  \<^verbatim>\<open>function_ref(F &&f)\<close>, instantiated. The template is constrained by the trait of the
  last subsection; here the signature is fixed by \<open>'a\<close> and \<open>'r\<close> and every callable
  has it. Two places of the body can still be ill-formed. Line 98 is
  \<^verbatim>\<open>reinterpret_cast<void *>(std::addressof(f))\<close>, which for a \<^verbatim>\<open>const\<close> callable would cast
  away \<^verbatim>\<open>const\<close>. Line 99 assigns the lambda to \<^verbatim>\<open>callback_\<close>; the lambda has no trailing
  return type, so it returns by value, and it converts to
  \<^verbatim>\<open>R (*)(void *, Args...)\<close> only when \<^verbatim>\<open>R\<close> is not a reference.
\<close>

definition function_ref_from :: "result_type \<Rightarrow> deduced \<Rightarrow> addr \<Rightarrow> ill_formed + function_ref" where
  "function_ref_from R F p =
     (if is_const F then Inl CastsAwayConst
      else if R = Reference then Inl LambdaReturnsValue
      else Inr (constructed_from F p))"

text \<open>
  The three assignment operators are declared to return \<^verbatim>\<open>function_ref &\<close> and their
  bodies end without a \<^verbatim>\<open>return\<close>. Each is modelled by the pair of what it returns and
  the store its statements leave.
\<close>

definition assign_copy :: "loc \<Rightarrow> loc \<Rightarrow> refs \<Rightarrow> (undefined_behaviour + loc) \<times> refs" where
  "assign_copy this rhs s =
     (let s1 = s(this := (s this)\<lparr>obj := obj (s rhs)\<rparr>);
          s2 = s1(this := (s1 this)\<lparr>callback := callback (s1 rhs)\<rparr>)
      in (Inl MissingReturn, s2))"

definition assign_nullptr :: "loc \<Rightarrow> refs \<Rightarrow> (undefined_behaviour + loc) \<times> refs" where
  "assign_nullptr this s =
     (let s1 = s(this := (s this)\<lparr>obj := None\<rparr>);
          s2 = s1(this := (s1 this)\<lparr>callback := None\<rparr>)
      in (Inl MissingReturn, s2))"

text \<open>The two statements of \<^verbatim>\<open>operator=(F &&f)\<close>.\<close>

definition assigned_from :: "loc \<Rightarrow> deduced \<Rightarrow> addr \<Rightarrow> refs \<Rightarrow> refs" where
  "assigned_from this F p s =
     (let s1 = s(this := (s this)\<lparr>obj := Some p\<rparr>)
      in s1(this := (s1 this)\<lparr>callback := Some (AssignmentThunk F)\<rparr>))"

text \<open>
  \<^verbatim>\<open>operator=(F &&f)\<close>, instantiated. Line 120 is \<^verbatim>\<open>obj_ = std::addressof(f)\<close>, with no
  cast: a pointer to a \<^verbatim>\<open>const\<close> object and a pointer to a function do not convert to
  \<^verbatim>\<open>void *\<close>. Line 122 writes \<^verbatim>\<open>reinterpret_cast<F *>(obj)\<close>, and \<^verbatim>\<open>F *\<close> is a pointer to a
  reference when \<^verbatim>\<open>F\<close> is \<^verbatim>\<open>G &\<close>. The lambda of line 121 returns by value, as the
  constructor's does. When the body is well-formed it runs its two statements and ends
  without a \<^verbatim>\<open>return\<close>.
\<close>

definition assign_from :: "loc \<Rightarrow> result_type \<Rightarrow> deduced \<Rightarrow> addr \<Rightarrow> refs \<Rightarrow> ill_formed + ((undefined_behaviour + loc) \<times> refs)" where
  "assign_from this R F p s =
     (if is_const F \<or> referred F = FunctionT then Inl NoConversionToVoidPointer
      else if is_lvalue F then Inl PointerToReference
      else if R = Reference then Inl LambdaReturnsValue
      else Inr (Inl MissingReturn, assigned_from this F p s))"

text \<open>\<^verbatim>\<open>std::swap\<close> on each member in turn: a temporary and two assignments.\<close>

definition swap_obj :: "loc \<Rightarrow> loc \<Rightarrow> refs \<Rightarrow> refs" where
  "swap_obj a b s =
     (let tmp = obj (s a);
          s1 = s(a := (s a)\<lparr>obj := obj (s b)\<rparr>)
      in s1(b := (s1 b)\<lparr>obj := tmp\<rparr>))"

definition swap_callback :: "loc \<Rightarrow> loc \<Rightarrow> refs \<Rightarrow> refs" where
  "swap_callback a b s =
     (let tmp = callback (s a);
          s1 = s(a := (s a)\<lparr>callback := callback (s b)\<rparr>)
      in s1(b := (s1 b)\<lparr>callback := tmp\<rparr>))"

text \<open>The member \<^verbatim>\<open>swap\<close> and the free function \<^verbatim>\<open>swap\<close>, which calls it.\<close>

definition swap_member :: "loc \<Rightarrow> loc \<Rightarrow> refs \<Rightarrow> refs" where
  "swap_member this rhs s = swap_callback this rhs (swap_obj this rhs s)"

definition swap_free :: "loc \<Rightarrow> loc \<Rightarrow> refs \<Rightarrow> refs" where
  "swap_free lhs rhs s = swap_member lhs rhs s"

text \<open>\<^verbatim>\<open>explicit operator bool\<close>.\<close>

definition operator_bool :: "function_ref \<Rightarrow> bool" where
  "operator_bool r = (obj r \<noteq> None)"

text \<open>
  \<^verbatim>\<open>operator()\<close> calls through \<^verbatim>\<open>callback_\<close> with \<^verbatim>\<open>obj_\<close>; a null \<^verbatim>\<open>callback_\<close> is not
  checked for.
\<close>

definition operator_call :: "function_ref \<Rightarrow> ('a, 'r) heap \<Rightarrow> 'a \<Rightarrow> undefined_behaviour + 'r" where
  "operator_call r h a =
     (case callback r of
        None \<Rightarrow> Inl NullCallback
      | Some t \<Rightarrow> run_thunk t h (obj r) a)"

text \<open>
  The four comparisons with \<^verbatim>\<open>nullptr\<close>. The body of \<^verbatim>\<open>operator==(f, nullptr)\<close> is
  \<^verbatim>\<open>return f == nullptr;\<close>, which is a call of the same operator with the same
  argument; \<^verbatim>\<open>operator==(nullptr, f)\<close> returns \<^verbatim>\<open>f == nullptr\<close> too. The two
  \<^verbatim>\<open>operator!=\<close> are written the same way with \<^verbatim>\<open>f != nullptr\<close>. A call that does not
  return has the value \<open>None\<close>.
\<close>

partial_function (option) operator_eq_ref_null :: "function_ref \<Rightarrow> bool option" where
  "operator_eq_ref_null f = operator_eq_ref_null f"

definition operator_eq_null_ref :: "function_ref \<Rightarrow> bool option" where
  "operator_eq_null_ref f = operator_eq_ref_null f"

partial_function (option) operator_ne_ref_null :: "function_ref \<Rightarrow> bool option" where
  "operator_ne_ref_null f = operator_ne_ref_null f"

definition operator_ne_null_ref :: "function_ref \<Rightarrow> bool option" where
  "operator_ne_null_ref f = operator_ne_ref_null f"

subsection \<open>Programs over a store of references\<close>

text \<open>
  The operations of the class, each on the objects at given locations. A constructor
  initialises the object at its location; an assignment leaves the store of its body.
  The statements of the two member templates are run for every \<^verbatim>\<open>F\<close>.
\<close>

datatype operation =
    Construct loc
  | ConstructNullptr loc
  | ConstructCopy loc loc
  | ConstructFrom loc deduced addr
  | AssignCopy loc loc
  | AssignNullptr loc
  | AssignFrom loc deduced addr
  | Swap loc loc
  | SwapFree loc loc

fun exec :: "operation \<Rightarrow> refs \<Rightarrow> refs" where
  "exec (Construct l) s = s(l := function_ref_default)"
| "exec (ConstructNullptr l) s = s(l := function_ref_nullptr)"
| "exec (ConstructCopy l rhs) s = s(l := function_ref_copy (s rhs))"
| "exec (ConstructFrom l F p) s = s(l := constructed_from F p)"
| "exec (AssignCopy l rhs) s = snd (assign_copy l rhs s)"
| "exec (AssignNullptr l) s = snd (assign_nullptr l s)"
| "exec (AssignFrom l F p) s = assigned_from l F p s"
| "exec (Swap l rhs) s = swap_member l rhs s"
| "exec (SwapFree l rhs) s = swap_free l rhs s"

text \<open>
  The stores a program can reach: it starts with every object default-constructed and
  performs operations one after another.
\<close>

inductive reachable :: "refs \<Rightarrow> bool" where
  initial: "reachable (\<lambda>l. function_ref_default)"
| step: "reachable s \<Longrightarrow> reachable (exec op s)"

text \<open>The invariant of one object, and of a store.\<close>

definition both_or_neither :: "function_ref \<Rightarrow> bool" where
  "both_or_neither r = ((obj r = None) = (callback r = None))"

definition store_invariant :: "refs \<Rightarrow> bool" where
  "store_invariant s = (\<forall>l. both_or_neither (s l))"

subsection \<open>detail::is\_invocable\_r\<close>









section \<open>Properties\<close>








text \<open>
  C2. The claim asks that each comparison with \<^verbatim>\<open>nullptr\<close> returns a boolean. None of
  the four returns, for any reference: each calls itself, or calls one that does.
\<close>

theorem null_comparisons_do_not_return:
  "operator_eq_ref_null f = None \<and> operator_eq_null_ref f = None
   \<and> operator_ne_ref_null f = None \<and> operator_ne_null_ref f = None"
proof -
  have eq: "operator_eq_ref_null f = None"
  proof (cases "operator_eq_ref_null f")
    case None
    then show ?thesis .
  next
    case (Some y)
    have False
      by (rule operator_eq_ref_null.raw_induct [where P = "\<lambda>_ _. False", OF _ Some])
    then show ?thesis ..
  qed
  have ne: "operator_ne_ref_null f = None"
  proof (cases "operator_ne_ref_null f")
    case None
    then show ?thesis .
  next
    case (Some y)
    have False
      by (rule operator_ne_ref_null.raw_induct [where P = "\<lambda>_ _. False", OF _ Some])
    then show ?thesis ..
  qed
  from eq ne show ?thesis
    by (simp add: operator_eq_null_ref_def operator_ne_null_ref_def)
qed

lemma constructed_both_or_neither:
  "both_or_neither function_ref_default"
  "both_or_neither function_ref_nullptr"
  "both_or_neither (constructed_from F p)"
  "both_or_neither (function_ref_copy r) = both_or_neither r"
  by (simp_all add: both_or_neither_def function_ref_default_def function_ref_nullptr_def
      constructed_from_def function_ref_copy_def)

lemma exec_preserves:
  assumes "store_invariant s"
  shows "store_invariant (exec op s)"
proof (cases op)
  case (Construct l)
  with assms show ?thesis
    by (simp add: store_invariant_def constructed_both_or_neither)
next
  case (ConstructNullptr l)
  with assms show ?thesis
    by (simp add: store_invariant_def constructed_both_or_neither)
next
  case (ConstructCopy l rhs)
  with assms show ?thesis
    by (simp add: store_invariant_def constructed_both_or_neither)
next
  case (ConstructFrom l F p)
  with assms show ?thesis
    by (simp add: store_invariant_def constructed_both_or_neither)
next
  case (AssignCopy l rhs)
  with assms show ?thesis
    by (simp add: store_invariant_def both_or_neither_def assign_copy_def Let_def)
next
  case (AssignNullptr l)
  with assms show ?thesis
    by (simp add: store_invariant_def both_or_neither_def assign_nullptr_def Let_def)
next
  case (AssignFrom l F p)
  with assms show ?thesis
    by (simp add: store_invariant_def both_or_neither_def assigned_from_def Let_def)
next
  case (Swap l rhs)
  with assms show ?thesis
    by (simp add: store_invariant_def both_or_neither_def swap_member_def swap_obj_def
        swap_callback_def Let_def)
next
  case (SwapFree l rhs)
  with assms show ?thesis
    by (simp add: store_invariant_def both_or_neither_def swap_free_def swap_member_def
        swap_obj_def swap_callback_def Let_def)
qed

lemma reachable_invariant: "reachable s \<Longrightarrow> store_invariant s"
proof (induction rule: reachable.induct)
  case initial
  show ?case
    by (simp add: store_invariant_def constructed_both_or_neither)
next
  case (step s op)
  then show ?case
    by (simp add: exec_preserves)
qed

text \<open>
  C3. In every object, \<^verbatim>\<open>obj_\<close> is null exactly when \<^verbatim>\<open>callback_\<close> is: each operation
  (the four constructors, the three assignments, both swaps) keeps this true of a store,
  and it is true of every store a program reaches.
\<close>

theorem null_together:
  "(store_invariant s \<longrightarrow> store_invariant (exec op s))
   \<and> (reachable s' \<longrightarrow> store_invariant s')"
  by (simp add: exec_preserves reachable_invariant)

theorem null_together_witness:
  "store_invariant (\<lambda>l. function_ref_default)
   \<and> store_invariant (exec (ConstructFrom 0 \<lparr>referred = ClassT 1, is_const = False, is_lvalue = True\<rparr> 5) (\<lambda>l. function_ref_default))
   \<and> reachable (exec (Swap 0 1) (exec (AssignFrom 0 \<lparr>referred = FunctionPointerT, is_const = False, is_lvalue = False\<rparr> 5) (\<lambda>l. function_ref_default)))
   \<and> store_invariant (exec (Swap 0 1) (exec (AssignFrom 0 \<lparr>referred = FunctionPointerT, is_const = False, is_lvalue = False\<rparr> 5) (\<lambda>l. function_ref_default)))"
proof -
  have a: "store_invariant (\<lambda>l. function_ref_default)"
    by (simp add: store_invariant_def both_or_neither_def function_ref_default_def)
  have b: "reachable (exec (Swap 0 1) (exec (AssignFrom 0 \<lparr>referred = FunctionPointerT, is_const = False, is_lvalue = False\<rparr> 5) (\<lambda>l. function_ref_default)))"
    by (intro reachable.step reachable.initial)
  from a b
    null_together [of "\<lambda>l. function_ref_default" "ConstructFrom 0 \<lparr>referred = ClassT 1, is_const = False, is_lvalue = True\<rparr> 5"
      "exec (Swap 0 1) (exec (AssignFrom 0 \<lparr>referred = FunctionPointerT, is_const = False, is_lvalue = False\<rparr> 5) (\<lambda>l. function_ref_default))"]
  show ?thesis by blast
qed

lemma swap_member_exchanges: "swap_member a b s = s(a := s b, b := s a)"
  by (rule ext) (auto simp add: swap_member_def swap_obj_def swap_callback_def Let_def)

text \<open>
  C4. Copy assignment \<^verbatim>\<open>a = b\<close> writes both members of \<open>a\<close> from \<open>b\<close> and changes no
  other object, \<open>b\<close> included. The claim also says that it yields a reference to \<open>a\<close>:
  the body has no \<^verbatim>\<open>return\<close> statement, so that nothing is returned.
\<close>

theorem assign_copy_returns_nothing:
  "assign_copy a b s = (Inl MissingReturn, s(a := s b)) \<and> fst (assign_copy a b s) \<noteq> Inr a"
proof -
  have "snd (assign_copy a b s) = s(a := s b)"
    by (rule ext) (simp add: assign_copy_def Let_def)
  moreover have "fst (assign_copy a b s) = Inl MissingReturn"
    by (simp add: assign_copy_def Let_def)
  ultimately show ?thesis
    by (simp add: prod_eq_iff)
qed

text \<open>
  C5. Swapping exchanges the two members of the two objects and touches no other object,
  so that a call through either one afterwards is the call through the other one before.
  The swap is a function of the store of references alone: it reads no callable and has
  no undefined case. The free function has the effect of the member.
\<close>

theorem swap_exchanges_behaviour:
  "swap_member a b s = s(a := s b, b := s a)
   \<and> operator_call (swap_member a b s a) h x = operator_call (s b) h x
   \<and> operator_call (swap_member a b s b) h x = operator_call (s a) h x
   \<and> swap_free a b s = swap_member a b s"
  by (simp add: swap_member_exchanges swap_free_def)

lemma both_members_written:
  "(r :: function_ref)\<lparr>obj := x, callback := y\<rparr> = \<lparr>obj = x, callback = y\<rparr>"
  by (cases r) simp

lemma assigned_from_store:
  "assigned_from this F p s = s(this := \<lparr>obj = Some p, callback = Some (AssignmentThunk F)\<rparr>)"
  by (rule ext) (simp add: assigned_from_def Let_def both_members_written)

text \<open>
  C6. The claim asks that a callable \<open>g\<close> assigned to a reference is bound as
  construction from \<open>g\<close> binds it. For an lvalue \<open>g\<close>, and for a function, the assignment
  is ill-formed, where the constructor accepts the same \<open>g\<close>. For an rvalue of another
  type it writes the address and its own lambda, which runs as the constructor's does,
  and then ends without returning.
\<close>

theorem assignment_from_callable_defects:
  "isl (assign_from this R \<lparr>referred = G, is_const = c, is_lvalue = True\<rparr> p s)
   \<and> isl (assign_from this R \<lparr>referred = FunctionT, is_const = c, is_lvalue = l\<rparr> p s)
   \<and> assign_from this ObjectOrVoid \<lparr>referred = ClassT n, is_const = False, is_lvalue = True\<rparr> p s
       = Inl PointerToReference
   \<and> function_ref_from ObjectOrVoid \<lparr>referred = G, is_const = False, is_lvalue = l\<rparr> p
       = Inr \<lparr>obj = Some p,
              callback = Some (ConstructorThunk \<lparr>referred = G, is_const = False, is_lvalue = l\<rparr>)\<rparr>
   \<and> assign_from this ObjectOrVoid \<lparr>referred = ClassT n, is_const = False, is_lvalue = False\<rparr> p s
       = Inr (Inl MissingReturn,
              s(this := \<lparr>obj = Some p,
                 callback = Some (AssignmentThunk \<lparr>referred = ClassT n, is_const = False, is_lvalue = False\<rparr>)\<rparr>))
   \<and> run_thunk (AssignmentThunk F) h q a = run_thunk (ConstructorThunk F) h q a"
  by (simp add: assign_from_def function_ref_from_def constructed_from_def
      assigned_from_store)

text \<open>
  C7. A reference that was default-constructed or constructed from \<^verbatim>\<open>nullptr\<close> has both
  members null and converts to false; any reference converts to true exactly when
  \<^verbatim>\<open>obj_\<close> is not null. The claim says the same of a reference that was assigned
  \<^verbatim>\<open>nullptr\<close>: that assignment writes null to both members and then ends without
  returning.
\<close>

theorem empty_is_false:
  "obj function_ref_default = None \<and> callback function_ref_default = None
   \<and> \<not> operator_bool function_ref_default
   \<and> obj function_ref_nullptr = None \<and> callback function_ref_nullptr = None
   \<and> \<not> operator_bool function_ref_nullptr
   \<and> operator_bool r = (obj r \<noteq> None)
   \<and> assign_nullptr this s = (Inl MissingReturn, s(this := function_ref_default))"
proof -
  have "snd (assign_nullptr this s) = s(this := function_ref_default)"
    by (rule ext) (simp add: assign_nullptr_def Let_def function_ref_default_def)
  moreover have "fst (assign_nullptr this s) = Inl MissingReturn"
    by (simp add: assign_nullptr_def Let_def)
  ultimately have "assign_nullptr this s = (Inl MissingReturn, s(this := function_ref_default))"
    by (simp add: prod_eq_iff)
  then show ?thesis
    by (simp add: function_ref_default_def function_ref_nullptr_def operator_bool_def)
qed

text \<open>
  C9. A reference constructed from a callable converts to true, whatever is at the
  address: one constructed from a pointer to function whose value is null converts to
  true as well, and calling through it is undefined. The claim says the same of a
  reference that was assigned a callable: assigning the pointer variable, an lvalue, is
  ill-formed, and assigning an rvalue pointer writes its address and then ends without
  returning.
\<close>

theorem bound_is_true:
  "function_ref_from ObjectOrVoid \<lparr>referred = G, is_const = False, is_lvalue = l\<rparr> p
     = Inr (constructed_from \<lparr>referred = G, is_const = False, is_lvalue = l\<rparr> p)
   \<and> operator_bool (constructed_from F p)
   \<and> operator_call (constructed_from \<lparr>referred = FunctionPointerT, is_const = False, is_lvalue = l\<rparr> p)
        (h(p \<mapsto> FunctionPointer None)) a
       = Inl NullFunctionPointer
   \<and> assign_from this ObjectOrVoid \<lparr>referred = FunctionPointerT, is_const = False, is_lvalue = True\<rparr> p s
       = Inl PointerToReference
   \<and> map_sum id fst
        (assign_from this ObjectOrVoid \<lparr>referred = FunctionPointerT, is_const = False, is_lvalue = False\<rparr> p s)
       = Inr (Inl MissingReturn)"
  by (simp add: function_ref_from_def operator_bool_def constructed_from_def assign_from_def
      operator_call_def deref_as_def invoke_def)

text \<open>
  C10. Swapping the same two objects twice gives back the store, and swapping an object
  with itself leaves the store as it was.
\<close>

theorem swap_twice:
  "swap_member a b (swap_member a b s) = s \<and> swap_member a a s = s"
proof
  show "swap_member a b (swap_member a b s) = s"
    by (rule ext) (simp add: swap_member_exchanges)
  show "swap_member a a s = s"
    by (rule ext) (simp add: swap_member_exchanges)
qed





end
